theory Spec2Isabelle
  imports Complex_Main
begin

section \<open>Supply-chain dependency-graph analysis (supply-chain-analyzer.py)\<close>

text \<open>
  A shallow embedding of the graph builder, the node and edge analysis and the risk
  scorer of \<^verbatim>\<open>SupplyChainAnalyzer\<close>. Python floats are read as real numbers: every
  constant of the scorer (0.1 .. 10.0) and every comparison is taken exactly, rounding is
  not modelled. Python's \<^verbatim>\<open>None\<close> is the \<open>None\<close> of an option type, an exception is the
  \<open>Inl\<close> of a sum.
\<close>

subsection \<open>Values and enumerations\<close>

datatype json = JNull | JBool bool | JInt int | JStr string
  | JList "json list" | JDict "(string \<times> json) list"

text \<open>
  One entry of a parsed JSON object, as \<^verbatim>\<open>dict.get\<close> sees it: the key is absent, it
  is present with the value null, or it holds a value.
\<close>

datatype 'a field = Absent | Null | Val 'a

text \<open>\<^verbatim>\<open>d.get(k)\<close>: None for a missing key, else the stored value (which may be None).\<close>

definition dict_get :: "'a field \<Rightarrow> 'a option" where
  "dict_get f = (case f of Absent \<Rightarrow> None | Null \<Rightarrow> None | Val v \<Rightarrow> Some v)"

text \<open>\<^verbatim>\<open>d.get(k, default)\<close>: the default only when the key is missing.\<close>

definition dict_get_default :: "'a field \<Rightarrow> 'a \<Rightarrow> 'a option" where
  "dict_get_default f d = (case f of Absent \<Rightarrow> Some d | Null \<Rightarrow> None | Val v \<Rightarrow> Some v)"

text \<open>The entry a dict literal \<^verbatim>\<open>{k: v}\<close> creates for a Python value \<open>v\<close>.\<close>

definition stored :: "'a option \<Rightarrow> 'a field" where
  "stored v = (case v of None \<Rightarrow> Null | Some x \<Rightarrow> Val x)"

text \<open>\<^verbatim>\<open>f"{v}"\<close> for a value that is a string or None.\<close>

definition py_format :: "string option \<Rightarrow> string" where
  "py_format v = (case v of None \<Rightarrow> ''None'' | Some s \<Rightarrow> s)"

text \<open>Truthiness of a value that is a string or None.\<close>

definition truthy :: "string option \<Rightarrow> bool" where
  "truthy v = (case v of None \<Rightarrow> False | Some s \<Rightarrow> s \<noteq> [])"

definition startswith :: "string \<Rightarrow> string \<Rightarrow> bool" where
  "startswith s p = (take (length p) s = p)"

datatype TrustLevel = VERIFIED | TRUSTED | NEUTRAL | SUSPICIOUS | UNTRUSTED

datatype DependencyType = DIRECT | TRANSITIVE | DEV | PEER | OPTIONAL

datatype error = ValueError string | TypeError string

text \<open>
  \<^verbatim>\<open>DependencyType(value)\<close>: the enum member with that value, ValueError when there is
  none. The message quotes the value as \<^verbatim>\<open>repr\<close> does for a string without quotes,
  backslashes or control characters, which is what the builder passes.
\<close>

definition DependencyType_of :: "string \<Rightarrow> error + DependencyType" where
  "DependencyType_of v =
     (if v = ''direct'' then Inr DIRECT
      else if v = ''transitive'' then Inr TRANSITIVE
      else if v = ''dev'' then Inr DEV
      else if v = ''peer'' then Inr PEER
      else if v = ''optional'' then Inr OPTIONAL
      else Inl (ValueError (CHR 0x27 # v @ CHR 0x27 # '' is not a valid DependencyType'')))"

subsection \<open>Enrichment data and node attributes\<close>

text \<open>
  The three mappings the enrichment step stores on a node. A field is \<open>None\<close> when the
  mapping has no such key, which is what the \<^verbatim>\<open>.get(key, default)\<close> calls of the scorer
  test for.
\<close>

record registry_info =
  age_days :: "int option"
  downloads :: "int option"
  maintainers :: "string list option"

record security_info =
  vulnerability_count :: "int option"
  critical_vulnerabilities :: "int option"
  security_advisories :: "json list option"

record trust_info =
  signed :: "bool option"
  maintainer_reputation :: "real option"
  security_incidents :: "int option"

definition empty_registry_info :: registry_info where
  "empty_registry_info = \<lparr>age_days = None, downloads = None, maintainers = None\<rparr>"

definition empty_security_info :: security_info where
  "empty_security_info =
     \<lparr>vulnerability_count = None, critical_vulnerabilities = None, security_advisories = None\<rparr>"

definition empty_trust_info :: trust_info where
  "empty_trust_info = \<lparr>signed = None, maintainer_reputation = None, security_incidents = None\<rparr>"

text \<open>
  The attribute dict of a graph node. \<open>nd_name\<close>, \<open>nd_version\<close> and \<open>nd_type\<close> are keys
  that \<^verbatim>\<open>_extract_components\<close> always writes (their value may be None); \<open>nd_purl\<close> and
  \<open>nd_scope\<close> exist for CycloneDX components only; \<open>nd_extra\<close> holds the remaining keys
  of the component, which the analysis never reads; the last three keys are added by
  enrichment.
\<close>

record node_data =
  nd_name :: "string option"
  nd_version :: "string option"
  nd_type :: "string option"
  nd_purl :: "string field"
  nd_scope :: "string field"
  nd_extra :: "(string \<times> json) list"
  nd_registry_info :: "registry_info option"
  nd_security_info :: "security_info option"
  nd_trust_info :: "trust_info option"

subsection \<open>Trust level\<close>

definition calculate_trust_level :: "node_data \<Rightarrow> TrustLevel" where
  "calculate_trust_level nd =
     (let ti = (case nd_trust_info nd of None \<Rightarrow> empty_trust_info | Some t \<Rightarrow> t) in
      if (case signed ti of None \<Rightarrow> False | Some b \<Rightarrow> b) then VERIFIED
      else
        let maintainer_score = (case maintainer_reputation ti of None \<Rightarrow> 0.5 | Some r \<Rightarrow> r) in
        if maintainer_score > 0.8 then TRUSTED
        else if maintainer_score < 0.3 then SUSPICIOUS
        else
          let incidents = (case security_incidents ti of None \<Rightarrow> 0 | Some n \<Rightarrow> n) in
          if incidents > 3 then UNTRUSTED else NEUTRAL)"

text \<open>The values the classification reads, with the defaults of the source.\<close>

definition trust_signed :: "node_data \<Rightarrow> bool" where
  "trust_signed nd =
     (case nd_trust_info nd of None \<Rightarrow> False
      | Some t \<Rightarrow> (case signed t of None \<Rightarrow> False | Some b \<Rightarrow> b))"

definition trust_reputation :: "node_data \<Rightarrow> real" where
  "trust_reputation nd =
     (case nd_trust_info nd of None \<Rightarrow> 0.5
      | Some t \<Rightarrow> (case maintainer_reputation t of None \<Rightarrow> 0.5 | Some r \<Rightarrow> r))"

definition trust_incidents :: "node_data \<Rightarrow> int" where
  "trust_incidents nd =
     (case nd_trust_info nd of None \<Rightarrow> 0
      | Some t \<Rightarrow> (case security_incidents t of None \<Rightarrow> 0 | Some n \<Rightarrow> n))"

subsection \<open>The dependency graph\<close>

text \<open>
  The attribute dict of an edge: \<^verbatim>\<open>_extract_dependencies\<close> writes exactly the keys
  source, target and type, the first two with values that may be None.
\<close>

record edge_data =
  ed_source :: "string option"
  ed_target :: "string option"
  ed_type :: string

text \<open>
  A directed graph as \<^verbatim>\<open>networkx.DiGraph\<close> stores it: one entry per node, in insertion
  order, holding the node's attribute dict and its successors (each with the edge's
  attribute dict, in insertion order). A DiGraph has at most one edge for an ordered pair
  of nodes, and may have self-loops.
\<close>

record node_entry =
  ne_id :: string
  ne_data :: node_data
  ne_succ :: "(string \<times> edge_data) list"

type_synonym graph = "node_entry list"

definition node_ids :: "graph \<Rightarrow> string list" where
  "node_ids g = map ne_id g"

definition has_node :: "graph \<Rightarrow> string \<Rightarrow> bool" where
  "has_node g n = (n \<in> set (node_ids g))"

text \<open>
  \<^verbatim>\<open>dict.update\<close> of a node's attributes with a component dict: the component's keys are
  overwritten, the enrichment keys are not among them.
\<close>

definition update_component :: "node_data \<Rightarrow> node_data \<Rightarrow> node_data" where
  "update_component old c =
     c\<lparr>nd_registry_info := nd_registry_info old,
       nd_security_info := nd_security_info old,
       nd_trust_info := nd_trust_info old\<rparr>"

text \<open>\<^verbatim>\<open>graph.add_node(n, **attrs)\<close>: a new node goes last, a known one has its
  attributes updated in place.\<close>

fun add_node :: "graph \<Rightarrow> string \<Rightarrow> node_data \<Rightarrow> graph" where
  "add_node [] n c = [\<lparr>ne_id = n, ne_data = c, ne_succ = []\<rparr>]"
| "add_node (e # g) n c =
     (if ne_id e = n then e\<lparr>ne_data := update_component (ne_data e) c\<rparr> # g
      else e # add_node g n c)"

text \<open>The successor dict of one node after \<^verbatim>\<open>add_edge\<close>: a known successor keeps its
  place and gets the new attributes (all three keys are rewritten), a new one goes last.\<close>

fun put_succ :: "(string \<times> edge_data) list \<Rightarrow> string \<Rightarrow> edge_data \<Rightarrow> (string \<times> edge_data) list" where
  "put_succ [] v d = [(v, d)]"
| "put_succ ((w, x) # ss) v d =
     (if w = v then (w, d) # ss else (w, x) # put_succ ss v d)"

text \<open>\<^verbatim>\<open>graph.add_edge(u, v, **attrs)\<close> for two nodes of the graph (the only use the
  builder makes of it).\<close>

definition add_edge :: "graph \<Rightarrow> string \<Rightarrow> string \<Rightarrow> edge_data \<Rightarrow> graph" where
  "add_edge g u v d =
     map (\<lambda>e. if ne_id e = u then e\<lparr>ne_succ := put_succ (ne_succ e) v d\<rparr> else e) g"

text \<open>\<^verbatim>\<open>graph.edges()\<close>: the edges by source node in node order, then by successor.\<close>

definition edges :: "graph \<Rightarrow> (string \<times> string \<times> edge_data) list" where
  "edges g = concat (map (\<lambda>e. map (\<lambda>(v, d). (ne_id e, v, d)) (ne_succ e)) g)"

definition edge_pairs :: "graph \<Rightarrow> (string \<times> string) list" where
  "edge_pairs g = map (\<lambda>(u, v, d). (u, v)) (edges g)"

definition successors :: "graph \<Rightarrow> string \<Rightarrow> string list" where
  "successors g n = concat (map (\<lambda>e. if ne_id e = n then map fst (ne_succ e) else []) g)"

definition predecessors :: "graph \<Rightarrow> string \<Rightarrow> string list" where
  "predecessors g n = map ne_id (filter (\<lambda>e. n \<in> set (map fst (ne_succ e))) g)"

text \<open>\<^verbatim>\<open>graph.degree()\<close> of a directed graph: in-degree plus out-degree.\<close>

definition degree :: "graph \<Rightarrow> string \<Rightarrow> nat" where
  "degree g n = length (successors g n) + length (predecessors g n)"

subsection \<open>The SBOM input\<close>

record cdx_component =
  cc_name :: "string field"
  cc_version :: "string field"
  cc_type :: "string field"
  cc_purl :: "string field"
  cc_scope :: "string field"
  cc_licenses :: "json field"
  cc_hashes :: "json field"

text \<open>An entry of \<^verbatim>\<open>dependencies\<close>: \<open>cd_dependsOn\<close> is the list under \<^verbatim>\<open>dependsOn\<close>
  (empty when the key is missing), its items strings or null.\<close>

record cdx_dependency =
  cd_ref :: "string field"
  cd_dependsOn :: "string option list"

record spdx_package =
  sp_name :: "string field"
  sp_versionInfo :: "string field"
  sp_downloadLocation :: "string field"
  sp_licenseConcluded :: "string field"
  sp_copyrightText :: "string field"

record spdx_relationship =
  sr_relationshipType :: "string field"
  sr_spdxElementId :: "string field"
  sr_relatedSpdxElement :: "string field"

text \<open>
  The SBOM document by the branch the extractors take: \<^verbatim>\<open>bomFormat == 'CycloneDX'\<close>
  (with its components and dependencies lists, empty when missing), else a truthy
  \<^verbatim>\<open>spdxVersion\<close> (with its packages and relationships), else neither.
\<close>

datatype sbom =
    CycloneDX "cdx_component list" "cdx_dependency list"
  | SPDX "spdx_package list" "spdx_relationship list"
  | OtherFormat

definition json_of :: "string option \<Rightarrow> json" where
  "json_of v = (case v of None \<Rightarrow> JNull | Some s \<Rightarrow> JStr s)"

definition json_get_default :: "json field \<Rightarrow> json \<Rightarrow> json" where
  "json_get_default f d = (case f of Absent \<Rightarrow> d | Null \<Rightarrow> JNull | Val v \<Rightarrow> v)"

definition cdx_component_dict :: "cdx_component \<Rightarrow> node_data" where
  "cdx_component_dict c =
     \<lparr>nd_name = dict_get (cc_name c),
      nd_version = dict_get (cc_version c),
      nd_type = dict_get (cc_type c),
      nd_purl = stored (dict_get (cc_purl c)),
      nd_scope = stored (dict_get_default (cc_scope c) ''required''),
      nd_extra = [(''licenses'', json_get_default (cc_licenses c) (JList [])),
                  (''hashes'', json_get_default (cc_hashes c) (JList []))],
      nd_registry_info = None, nd_security_info = None, nd_trust_info = None\<rparr>"

definition spdx_package_dict :: "spdx_package \<Rightarrow> node_data" where
  "spdx_package_dict p =
     \<lparr>nd_name = dict_get (sp_name p),
      nd_version = dict_get_default (sp_versionInfo p) ''unknown'',
      nd_type = Some ''library'',
      nd_purl = Absent,
      nd_scope = Absent,
      nd_extra = [(''downloadLocation'', json_of (dict_get (sp_downloadLocation p))),
                  (''licenseConcluded'', json_of (dict_get (sp_licenseConcluded p))),
                  (''copyrightText'', json_of (dict_get (sp_copyrightText p)))],
      nd_registry_info = None, nd_security_info = None, nd_trust_info = None\<rparr>"

fun extract_components :: "sbom \<Rightarrow> node_data list" where
  "extract_components (CycloneDX cs ds) = map cdx_component_dict cs"
| "extract_components (SPDX ps rs) = map spdx_package_dict ps"
| "extract_components OtherFormat = []"

definition cdx_dependency_dicts :: "cdx_dependency \<Rightarrow> edge_data list" where
  "cdx_dependency_dicts di =
     (let source = dict_get (cd_ref di) in
      map (\<lambda>target. \<lparr>ed_source = source, ed_target = target, ed_type = ''depends_on''\<rparr>)
        (cd_dependsOn di))"

definition spdx_relationship_dicts :: "spdx_relationship \<Rightarrow> edge_data list" where
  "spdx_relationship_dicts r =
     (if dict_get (sr_relationshipType r) = Some ''DEPENDS_ON''
      then [\<lparr>ed_source = dict_get (sr_spdxElementId r),
             ed_target = dict_get (sr_relatedSpdxElement r),
             ed_type = ''depends_on''\<rparr>]
      else [])"

fun extract_dependencies :: "sbom \<Rightarrow> edge_data list" where
  "extract_dependencies (CycloneDX cs ds) = concat (map cdx_dependency_dicts ds)"
| "extract_dependencies (SPDX ps rs) = concat (map spdx_relationship_dicts rs)"
| "extract_dependencies OtherFormat = []"

subsection \<open>Building the graph\<close>

text \<open>The node identifier of a component dict: an f-string of
  \<^verbatim>\<open>component.get('name', '')\<close>, the character \<open>@\<close> and
  \<^verbatim>\<open>component.get('version', '')\<close>. Both keys are present in the dict.\<close>

definition node_id_of :: "node_data \<Rightarrow> string" where
  "node_id_of component =
     py_format (dict_get_default (stored (nd_name component)) '''') @ ''@'' @
     py_format (dict_get_default (stored (nd_version component)) '''')"

fun add_components :: "graph \<Rightarrow> node_data list \<Rightarrow> graph" where
  "add_components g [] = g"
| "add_components g (c # cs) = add_components (add_node g (node_id_of c) c) cs"

text \<open>One round of the dependency loop: the edge is added when source and target are
  truthy and both are nodes of the graph, and the record is skipped otherwise.\<close>

definition add_dependency :: "graph \<Rightarrow> edge_data \<Rightarrow> graph" where
  "add_dependency g dep =
     (case ed_source dep of None \<Rightarrow> g
      | Some source \<Rightarrow>
         (case ed_target dep of None \<Rightarrow> g
          | Some target \<Rightarrow>
             if truthy (Some source) \<and> truthy (Some target) \<and>
                has_node g source \<and> has_node g target
             then add_edge g source target dep else g))"

fun add_dependencies :: "graph \<Rightarrow> edge_data list \<Rightarrow> graph" where
  "add_dependencies g [] = g"
| "add_dependencies g (dep # deps) = add_dependencies (add_dependency g dep) deps"

subsection \<open>Enrichment\<close>

text \<open>
  What a lookup raises, by the test of \<^verbatim>\<open>except Exception\<close>: an instance of
  \<^verbatim>\<open>Exception\<close>, or an exception that is not one (\<^verbatim>\<open>asyncio.CancelledError\<close> derives
  from \<^verbatim>\<open>BaseException\<close> only). The string is the exception's text. The two
  exceptions that the event loop itself re-raises, \<^verbatim>\<open>KeyboardInterrupt\<close> and
  \<^verbatim>\<open>SystemExit\<close>, are signals to the process and no outcome of a lookup.
\<close>

datatype raised = Exception string | BaseException string

text \<open>
  A registry client is a collaborator: \<^verbatim>\<open>get_package_info(name, version)\<close> returns a
  mapping or raises (\<open>Inl\<close>). \<open>package_registries\<close> is the dict of clients by package
  manager.
\<close>

type_synonym registry_client = "string option \<Rightarrow> string option \<Rightarrow> raised + registry_info"

type_synonym package_registries = "string \<Rightarrow> registry_client option"

definition extract_package_manager :: "string option \<Rightarrow> string" where
  "extract_package_manager purl =
     (case purl of None \<Rightarrow> ''unknown''
      | Some p \<Rightarrow>
         if p = [] then ''unknown''
         else if startswith p ''pkg:npm/'' then ''npm''
         else if startswith p ''pkg:pypi/'' then ''pypi''
         else if startswith p ''pkg:maven/'' then ''maven''
         else if startswith p ''pkg:nuget/'' then ''nuget''
         else if startswith p ''pkg:gem/'' then ''rubygems''
         else ''unknown'')"

text \<open>The two placeholder methods of the class return fixed mappings and do not
  raise.\<close>

definition security_placeholder :: security_info where
  "security_placeholder =
     \<lparr>vulnerability_count = Some 0, critical_vulnerabilities = Some 0,
      security_advisories = Some []\<rparr>"

definition trust_placeholder :: trust_info where
  "trust_placeholder =
     \<lparr>signed = Some False, maintainer_reputation = Some 0.5, security_incidents = Some 0\<rparr>"

definition get_security_information ::
  "string option \<Rightarrow> string option \<Rightarrow> string \<Rightarrow> raised + security_info" where
  "get_security_information name version package_manager = Inr security_placeholder"

definition get_trust_information ::
  "string option \<Rightarrow> string option \<Rightarrow> string \<Rightarrow> raised + trust_info" where
  "get_trust_information name version package_manager = Inr trust_placeholder"

text \<open>The dict \<^verbatim>\<open>enriched\<close>: a field is \<open>None\<close> while its key has not been written.\<close>

record enriched =
  en_registry_info :: "registry_info option"
  en_security_info :: "security_info option"
  en_trust_info :: "trust_info option"

definition no_enrichment :: enriched where
  "no_enrichment = \<lparr>en_registry_info = None, en_security_info = None, en_trust_info = None\<rparr>"

definition warning :: "string \<Rightarrow> string \<Rightarrow> string" where
  "warning node_id e = ''Error enriching node '' @ node_id @ '': '' @ e"

text \<open>
  The handler of \<^verbatim>\<open>_enrich_node_data\<close>. \<^verbatim>\<open>except Exception as e\<close> takes an
  \<^verbatim>\<open>Exception\<close>: the warning is logged and the function goes on to return the dict
  as it stands. Any other exception passes the handler and leaves the coroutine,
  nothing logged.
\<close>

definition handle :: "string \<Rightarrow> enriched \<Rightarrow> raised \<Rightarrow> (raised + enriched) \<times> string list" where
  "handle node_id so_far r =
     (case r of
        Exception e \<Rightarrow> (Inr so_far, [warning node_id e])
      | BaseException e \<Rightarrow> (Inl r, []))"

text \<open>
  \<^verbatim>\<open>_enrich_node_data\<close>: the three lookups run in order inside one \<^verbatim>\<open>try\<close>, and the
  first one that raises ends the block. The result is what the coroutine returns (the
  dict) or raises, and the warnings logged.
\<close>

definition enrich_node_data ::
  "package_registries \<Rightarrow> string \<Rightarrow> node_data \<Rightarrow> (raised + enriched) \<times> string list" where
  "enrich_node_data regs node_id nd =
     (let name = dict_get_default (stored (nd_name nd)) '''';
          version = dict_get_default (stored (nd_version nd)) '''';
          purl = dict_get_default (nd_purl nd) '''';
          package_manager = extract_package_manager purl;
          enriched0 = no_enrichment
      in case (case regs package_manager of
                 None \<Rightarrow> Inr enriched0
               | Some client \<Rightarrow>
                  (case client name version of
                     Inl r \<Rightarrow> Inl r
                   | Inr info \<Rightarrow> Inr (enriched0\<lparr>en_registry_info := Some info\<rparr>))) of
           Inl r \<Rightarrow> handle node_id enriched0 r
         | Inr enriched1 \<Rightarrow>
            (case get_security_information name version package_manager of
               Inl r \<Rightarrow> handle node_id enriched1 r
             | Inr sec \<Rightarrow>
                (let enriched2 = enriched1\<lparr>en_security_info := Some sec\<rparr> in
                 case get_trust_information name version package_manager of
                   Inl r \<Rightarrow> handle node_id enriched2 r
                 | Inr tr \<Rightarrow> (Inr (enriched2\<lparr>en_trust_info := Some tr\<rparr>), []))))"

text \<open>\<^verbatim>\<open>graph.nodes[node_id].update(data)\<close>: the keys of \<^verbatim>\<open>data\<close> are written, the
  others stay.\<close>

definition update_enriched :: "node_data \<Rightarrow> enriched \<Rightarrow> node_data" where
  "update_enriched nd en =
     nd\<lparr>nd_registry_info :=
          (case en_registry_info en of None \<Rightarrow> nd_registry_info nd | Some r \<Rightarrow> Some r),
        nd_security_info :=
          (case en_security_info en of None \<Rightarrow> nd_security_info nd | Some r \<Rightarrow> Some r),
        nd_trust_info :=
          (case en_trust_info en of None \<Rightarrow> nd_trust_info nd | Some r \<Rightarrow> Some r)\<rparr>"

text \<open>
  One task of a batch and the write that follows it.
  \<^verbatim>\<open>asyncio.gather(*batch, return_exceptions=True)\<close> hands back what each coroutine
  returned or raised; the loop over the results updates the node when the result is a
  dict (\<^verbatim>\<open>isinstance(data, dict)\<close>) and passes over it when it is an exception.
\<close>

definition enrich_entry :: "package_registries \<Rightarrow> node_entry \<Rightarrow> node_entry \<times> string list" where
  "enrich_entry regs e =
     (let (data, logged) = enrich_node_data regs (ne_id e) (ne_data e)
      in (case data of
            Inr d \<Rightarrow> e\<lparr>ne_data := update_enriched (ne_data e) d\<rparr>
          | Inl exc \<Rightarrow> e,
          logged))"

text \<open>\<^verbatim>\<open>tasks[i:i + batch_size] for i in range(0, len(tasks), batch_size)\<close>.\<close>

function chunks :: "nat \<Rightarrow> 'a list \<Rightarrow> 'a list list" where
  "chunks n xs = (if n = 0 \<or> xs = [] then [] else take n xs # chunks n (drop n xs))"
  by pat_completeness auto
termination
  by (relation "measure (\<lambda>(n, xs). length xs)") auto

declare chunks.simps [simp del]

definition batch_size :: nat where
  "batch_size = 10"

text \<open>
  One batch: \<^verbatim>\<open>asyncio.gather\<close> returns the results in the order of the tasks, and
  result \<open>j\<close> of the batch starting at \<open>i\<close> belongs to node \<open>i + j\<close>, that is to the
  node the task was created for.
\<close>

definition enrich_batch :: "package_registries \<Rightarrow> node_entry list \<Rightarrow> node_entry list \<times> string list" where
  "enrich_batch regs batch =
     (let results = map (enrich_entry regs) batch
      in (map fst results, concat (map snd results)))"

definition enrich_dependency_graph :: "package_registries \<Rightarrow> graph \<Rightarrow> graph \<times> string list" where
  "enrich_dependency_graph regs g =
     (let batches = map (enrich_batch regs) (chunks batch_size g)
      in (concat (map fst batches), concat (map snd batches)))"

text \<open>The body of \<^verbatim>\<open>_build_dependency_graph\<close> once the component and dependency
  dicts are extracted: the nodes, then the edges, then enrichment.\<close>

definition build_graph ::
  "package_registries \<Rightarrow> node_data list \<Rightarrow> edge_data list \<Rightarrow> graph \<times> string list" where
  "build_graph regs components dependencies =
     (let g1 = add_components [] components;
          g2 = add_dependencies g1 dependencies
      in enrich_dependency_graph regs g2)"

definition build_dependency_graph :: "package_registries \<Rightarrow> sbom \<Rightarrow> graph \<times> string list" where
  "build_dependency_graph regs sbom_data =
     build_graph regs (extract_components sbom_data) (extract_dependencies sbom_data)"

text \<open>The clients the constructor installs: one per package manager, each a
  placeholder whose \<^verbatim>\<open>get_package_info\<close> returns the empty mapping.\<close>

definition placeholder_client :: registry_client where
  "placeholder_client name version = Inr empty_registry_info"

definition installed_registries :: package_registries where
  "installed_registries package_manager =
     (if package_manager \<in> set [''npm'', ''pypi'', ''maven'', ''nuget'', ''rubygems'']
      then Some placeholder_client else None)"

subsection \<open>Analysis records\<close>

type_synonym py_dict = "(string \<times> json) list"

record SupplyChainNode =
  n_id :: string
  n_name :: "string option"
  n_version :: "string option"
  n_package_manager :: string
  n_dependency_type :: DependencyType
  n_trust_level :: TrustLevel
  n_risk_score :: real
  n_maintainer_info :: py_dict
  n_repository_info :: py_dict
  n_security_metrics :: py_dict
  n_metadata :: node_data

record SupplyChainEdge =
  e_source_id :: string
  e_target_id :: string
  e_dependency_type :: DependencyType
  e_version_constraint :: string
  e_introduced_by :: "string option"
  e_risk_contribution :: real

record SupplyChainAnalysis =
  a_analysis_id :: string
  a_timestamp :: int
  a_total_nodes :: nat
  a_total_edges :: nat
  a_max_depth :: int
  a_risk_distribution :: "(string \<times> int) list"
  a_trust_distribution :: "(string \<times> int) list"
  a_critical_paths :: "string list list"
  a_vulnerable_paths :: "string list list"
  a_orphaned_dependencies :: "string list"
  a_circular_dependencies :: "string list list"
  a_single_points_of_failure :: "string list"
  a_supply_chain_score :: real
  a_recommendations :: "string list"
  a_nodes :: "SupplyChainNode list"
  a_edges :: "SupplyChainEdge list"

text \<open>The dict \<^verbatim>\<open>results\<close> of \<^verbatim>\<open>_perform_graph_analysis\<close>, by the keys that are read
  afterwards. The three centrality entries (betweenness, closeness, PageRank) are
  computed by \<^verbatim>\<open>networkx\<close>, stored and never read; the model leaves them out and takes
  the three library calls to return.\<close>

record analysis_results =
  r_max_depth :: int
  r_average_degree :: real
  r_risk_distribution :: "(string \<times> int) list"
  r_trust_distribution :: "(string \<times> int) list"
  r_critical_paths :: "string list list"
  r_vulnerable_paths :: "string list list"
  r_orphaned_dependencies :: "string list"
  r_circular_dependencies :: "string list list"
  r_single_points_of_failure :: "string list"

text \<open>
  What the analyzer calls and the source does not define: the methods
  \<^verbatim>\<open>_extract_maintainer_info\<close> .. \<^verbatim>\<open>_store_analysis\<close> of the class, and
  \<^verbatim>\<open>networkx.shortest_path_length\<close> (\<open>None\<close> when it raises, as it does when there
  is no path). They are parameters of the model, each a function of the arguments the
  call passes: the model is of the class with these methods supplied. In the class as
  it stands a call of one of the methods is an \<^verbatim>\<open>AttributeError\<close>, raised in
  \<^verbatim>\<open>_analyze_nodes\<close> for the first node and in \<^verbatim>\<open>_perform_graph_analysis\<close> for a
  graph without nodes, so that every run of \<^verbatim>\<open>analyze_supply_chain\<close> ends in an
  exception; the model raises where the code between these calls raises, and returns
  only where the class with the methods supplied would. \<open>'db\<close> is the state of the
  database that \<^verbatim>\<open>_store_analysis\<close> writes.
\<close>

record 'db externals =
  x_shortest_path_length :: "graph \<Rightarrow> string \<Rightarrow> string \<Rightarrow> nat option"
  x_extract_maintainer_info :: "node_data \<Rightarrow> py_dict"
  x_extract_repository_info :: "node_data \<Rightarrow> py_dict"
  x_extract_security_metrics :: "node_data \<Rightarrow> py_dict"
  x_find_dependency_introducer :: "graph \<Rightarrow> string \<Rightarrow> string \<Rightarrow> string option"
  x_calculate_edge_risk_contribution :: "graph \<Rightarrow> string \<Rightarrow> string \<Rightarrow> real"
  x_calculate_max_depth :: "graph \<Rightarrow> int"
  x_calculate_risk_distribution :: "SupplyChainNode list \<Rightarrow> (string \<times> int) list"
  x_calculate_trust_distribution :: "SupplyChainNode list \<Rightarrow> (string \<times> int) list"
  x_find_critical_paths :: "graph \<Rightarrow> SupplyChainNode list \<Rightarrow> string list list"
  x_find_vulnerable_paths :: "graph \<Rightarrow> SupplyChainNode list \<Rightarrow> string list list"
  x_find_orphaned_dependencies :: "graph \<Rightarrow> string list"
  x_find_circular_dependencies :: "graph \<Rightarrow> string list list"
  x_find_single_points_of_failure :: "graph \<Rightarrow> string list"
  x_store_analysis :: "'db \<Rightarrow> SupplyChainAnalysis \<Rightarrow> 'db"

subsection \<open>Node analysis\<close>

definition determine_dependency_type :: "node_data \<Rightarrow> graph \<Rightarrow> string \<Rightarrow> DependencyType" where
  "determine_dependency_type nd g node_id =
     (let scope = dict_get_default (nd_scope nd) ''required'' in
      if scope = Some ''optional'' then OPTIONAL
      else if scope = Some ''dev'' then DEV
      else if predecessors g node_id = [] then DIRECT
      else TRANSITIVE)"

text \<open>The values the risk score reads, with the defaults of the source.\<close>

definition vuln_count_of :: "node_data \<Rightarrow> int" where
  "vuln_count_of nd =
     (case nd_security_info nd of None \<Rightarrow> 0
      | Some s \<Rightarrow> (case vulnerability_count s of None \<Rightarrow> 0 | Some n \<Rightarrow> n))"

definition critical_vulns_of :: "node_data \<Rightarrow> int" where
  "critical_vulns_of nd =
     (case nd_security_info nd of None \<Rightarrow> 0
      | Some s \<Rightarrow> (case critical_vulnerabilities s of None \<Rightarrow> 0 | Some n \<Rightarrow> n))"

definition registry_info_of :: "node_data \<Rightarrow> registry_info" where
  "registry_info_of nd =
     (case nd_registry_info nd of None \<Rightarrow> empty_registry_info | Some r \<Rightarrow> r)"

definition age_days_of :: "node_data \<Rightarrow> int" where
  "age_days_of nd = (case age_days (registry_info_of nd) of None \<Rightarrow> 365 | Some a \<Rightarrow> a)"

definition downloads_of :: "node_data \<Rightarrow> int" where
  "downloads_of nd = (case downloads (registry_info_of nd) of None \<Rightarrow> 0 | Some d \<Rightarrow> d)"

definition maintainer_count_of :: "node_data \<Rightarrow> nat" where
  "maintainer_count_of nd =
     length (case maintainers (registry_info_of nd) of None \<Rightarrow> [] | Some ms \<Rightarrow> ms)"

text \<open>
  The depth lookup of the risk score:
  \<^verbatim>\<open>nx.shortest_path_length(graph, source=list(graph.nodes())[0], target=node_id)\<close>
  inside \<^verbatim>\<open>try: ... except: pass\<close>. \<open>None\<close> when the graph has no node or the library
  call raises.
\<close>

definition depth_of :: "'db externals \<Rightarrow> graph \<Rightarrow> string \<Rightarrow> nat option" where
  "depth_of x g node_id =
     (case g of [] \<Rightarrow> None | e # _ \<Rightarrow> x_shortest_path_length x g (ne_id e) node_id)"

definition calculate_node_risk_score :: "'db externals \<Rightarrow> node_data \<Rightarrow> graph \<Rightarrow> string \<Rightarrow> real" where
  "calculate_node_risk_score x nd g node_id =
     (let risk_score = 0;
          vuln_count = vuln_count_of nd;
          critical_vulns = critical_vulns_of nd;
          risk_score = risk_score + real_of_int critical_vulns * 2.0;
          risk_score = risk_score + real_of_int vuln_count * 0.5;
          age = age_days_of nd;
          risk_score = (if age < 30 then risk_score + 1.0
                        else if age > 2000 then risk_score + 0.5 else risk_score);
          dl = downloads_of nd;
          risk_score = (if dl < 1000 then risk_score + 1.0
                        else if dl < 10000 then risk_score + 0.5 else risk_score);
          maintainer_count = maintainer_count_of nd;
          risk_score = (if maintainer_count = 1 then risk_score + 0.5
                        else if maintainer_count = 0 then risk_score + 1.0 else risk_score);
          risk_score = (case depth_of x g node_id of
                          None \<Rightarrow> risk_score
                        | Some depth \<Rightarrow> risk_score + real depth * 0.1)
      in min risk_score 10.0)"

definition analyze_node :: "'db externals \<Rightarrow> graph \<Rightarrow> node_entry \<Rightarrow> SupplyChainNode" where
  "analyze_node x g e =
     (let node_id = ne_id e; nd = ne_data e in
      \<lparr>n_id = node_id,
       n_name = dict_get_default (stored (nd_name nd)) '''',
       n_version = dict_get_default (stored (nd_version nd)) '''',
       n_package_manager = extract_package_manager (dict_get_default (nd_purl nd) ''''),
       n_dependency_type = determine_dependency_type nd g node_id,
       n_trust_level = calculate_trust_level nd,
       n_risk_score = calculate_node_risk_score x nd g node_id,
       n_maintainer_info = x_extract_maintainer_info x nd,
       n_repository_info = x_extract_repository_info x nd,
       n_security_metrics = x_extract_security_metrics x nd,
       n_metadata = nd\<rparr>)"

definition analyze_nodes :: "'db externals \<Rightarrow> graph \<Rightarrow> SupplyChainNode list" where
  "analyze_nodes x g = map (analyze_node x g) g"

subsection \<open>Edge analysis\<close>

text \<open>
  The loop of \<^verbatim>\<open>_analyze_edges\<close> over \<^verbatim>\<open>graph.edges()\<close>. The edge's type is looked up
  with \<^verbatim>\<open>DependencyType(edge_data.get('type', 'direct'))\<close>, where the key is always
  present; a ValueError there ends the loop and the analysis. The key
  \<^verbatim>\<open>version_constraint\<close> is never present, so the constraint is the default.
\<close>

fun analyze_edge_list ::
  "'db externals \<Rightarrow> graph \<Rightarrow> (string \<times> string \<times> edge_data) list \<Rightarrow> error + SupplyChainEdge list" where
  "analyze_edge_list x g [] = Inr []"
| "analyze_edge_list x g ((source, target, edge_data) # rest) =
     (case DependencyType_of (ed_type edge_data) of
        Inl err \<Rightarrow> Inl err
      | Inr dependency_type \<Rightarrow>
         (let edge = \<lparr>e_source_id = source, e_target_id = target,
                      e_dependency_type = dependency_type,
                      e_version_constraint = ''*'',
                      e_introduced_by = x_find_dependency_introducer x g source target,
                      e_risk_contribution = x_calculate_edge_risk_contribution x g source target\<rparr>
          in case analyze_edge_list x g rest of
               Inl err \<Rightarrow> Inl err
             | Inr es \<Rightarrow> Inr (edge # es)))"

definition analyze_edges :: "'db externals \<Rightarrow> graph \<Rightarrow> error + SupplyChainEdge list" where
  "analyze_edges x g = analyze_edge_list x g (edges g)"

subsection \<open>Graph analysis and the supply-chain score\<close>

definition perform_graph_analysis ::
  "'db externals \<Rightarrow> graph \<Rightarrow> SupplyChainNode list \<Rightarrow> SupplyChainEdge list \<Rightarrow> analysis_results" where
  "perform_graph_analysis x g nodes edge_list =
     \<lparr>r_max_depth = x_calculate_max_depth x g,
      r_average_degree =
        (if g \<noteq> [] then real (sum_list (map (degree g) (node_ids g))) / real (length g) else 0),
      r_risk_distribution = x_calculate_risk_distribution x nodes,
      r_trust_distribution = x_calculate_trust_distribution x nodes,
      r_critical_paths = x_find_critical_paths x g nodes,
      r_vulnerable_paths = x_find_vulnerable_paths x g nodes,
      r_orphaned_dependencies = x_find_orphaned_dependencies x g,
      r_circular_dependencies = x_find_circular_dependencies x g,
      r_single_points_of_failure = x_find_single_points_of_failure x g\<rparr>"

definition calculate_supply_chain_score ::
  "SupplyChainNode list \<Rightarrow> SupplyChainEdge list \<Rightarrow> analysis_results \<Rightarrow> real" where
  "calculate_supply_chain_score nodes edge_list results =
     (if nodes = [] then 0.0
      else
        let node_scores = map (\<lambda>node. 10.0 - n_risk_score node) nodes;
            base_score = sum_list node_scores / real (length node_scores);
            penalties = 0.0;
            penalties = (if r_circular_dependencies results \<noteq> []
                         then penalties + real (length (r_circular_dependencies results)) * 0.5
                         else penalties);
            penalties = (if r_single_points_of_failure results \<noteq> []
                         then penalties + real (length (r_single_points_of_failure results)) * 0.3
                         else penalties);
            penalties = (if r_orphaned_dependencies results \<noteq> []
                         then penalties + real (length (r_orphaned_dependencies results)) * 0.2
                         else penalties);
            high_risk_nodes = filter (\<lambda>n. n_risk_score n > 7.0) nodes;
            penalties = (if high_risk_nodes \<noteq> []
                         then penalties + real (length high_risk_nodes) * 0.4 else penalties);
            untrusted_nodes = filter (\<lambda>n. n_trust_level n = UNTRUSTED) nodes;
            penalties = (if untrusted_nodes \<noteq> []
                         then penalties + real (length untrusted_nodes) * 0.6 else penalties)
        in max 0.0 (min 10.0 (base_score - penalties)))"

subsection \<open>Recommendations\<close>

function show_nat :: "nat \<Rightarrow> string" where
  "show_nat n =
     (if n < 10 then [''0123456789'' ! n]
      else show_nat (n div 10) @ [''0123456789'' ! (n mod 10)])"
  by pat_completeness auto
termination
  by (relation "measure id") auto

declare show_nat.simps [simp del]

definition show_int :: "int \<Rightarrow> string" where
  "show_int i = (if i < 0 then CHR ''-'' # show_nat (nat (- i)) else show_nat (nat i))"

fun join :: "string \<Rightarrow> string list \<Rightarrow> string" where
  "join sep [] = []"
| "join sep [s] = s"
| "join sep (s # t # ts) = s @ sep @ join sep (t # ts)"

text \<open>\<^verbatim>\<open>', '.join([n.name for n in ns])\<close>: a name that is None is a TypeError.\<close>

definition join_names :: "string option list \<Rightarrow> error + string" where
  "join_names names =
     (case those names of
        None \<Rightarrow>
          Inl (TypeError (''sequence item '' @
                 show_nat (length (takeWhile (\<lambda>v. v \<noteq> None) names)) @
                 '': expected str instance, NoneType found''))
      | Some ss \<Rightarrow> Inr (join '', '' ss))"

definition general_recommendations :: "string list" where
  "general_recommendations =
     [''Implement dependency pinning with exact versions for critical components'',
      ''Set up automated dependency scanning and vulnerability monitoring'',
      ''Establish a software bill of materials (SBOM) generation process'',
      ''Create a dependency approval process for new packages'',
      ''Implement package signature verification where available'',
      ''Regular audit and cleanup of unused dependencies'']"

definition named_recommendation ::
  "string \<Rightarrow> string \<Rightarrow> SupplyChainNode list \<Rightarrow> error + string list" where
  "named_recommendation head middle ns =
     (if ns \<noteq> [] then
        (case join_names (map n_name (take 3 ns)) of
           Inl err \<Rightarrow> Inl err
         | Inr names \<Rightarrow> Inr [head @ show_nat (length ns) @ middle @ names])
      else Inr [])"

definition generate_recommendations ::
  "analysis_results \<Rightarrow> SupplyChainNode list \<Rightarrow> SupplyChainEdge list \<Rightarrow> error + string list" where
  "generate_recommendations results nodes edge_list =
     (case named_recommendation ''CRITICAL: ''
             ('' components have high supply chain risk. '' @
              ''Review and consider alternatives for: '')
             (filter (\<lambda>n. n_risk_score n > 7.0) nodes) of
        Inl err \<Rightarrow> Inl err
      | Inr high_risk \<Rightarrow>
         (case named_recommendation ''SECURITY: ''
                 ('' components are untrusted. '' @
                  ''Verify authenticity and consider removal: '')
                 (filter (\<lambda>n. n_trust_level n = UNTRUSTED) nodes) of
            Inl err \<Rightarrow> Inl err
          | Inr untrusted \<Rightarrow>
             Inr (high_risk @ untrusted @
               (if r_circular_dependencies results \<noteq> [] then
                  [''ARCHITECTURE: '' @ show_nat (length (r_circular_dependencies results)) @
                   '' circular dependencies detected. '' @
                   ''Refactor to eliminate circular references and reduce complexity.'']
                else []) @
               (if r_single_points_of_failure results \<noteq> [] then
                  [''RESILIENCE: '' @ show_nat (length (r_single_points_of_failure results)) @
                   '' single points of failure identified. '' @
                   ''Consider alternative packages or implement redundancy.'']
                else []) @
               (if r_orphaned_dependencies results \<noteq> [] then
                  [''CLEANUP: '' @ show_nat (length (r_orphaned_dependencies results)) @
                   '' orphaned dependencies found. '' @
                   ''Remove unused dependencies to reduce attack surface.'']
                else []) @
               (if r_max_depth results > 10 then
                  [''COMPLEXITY: Dependency chain depth is '' @ show_int (r_max_depth results) @
                   ''. '' @
                   ''Consider flattening dependencies to reduce supply chain complexity.'']
                else []) @
               general_recommendations)))"

subsection \<open>The analysis\<close>

text \<open>
  \<^verbatim>\<open>analyze_supply_chain\<close>. The fresh \<^verbatim>\<open>uuid.uuid4()\<close> and the clock reading are inputs
  of the model; the database is passed in and returned. An exception of a step ends
  the run before anything is stored.
\<close>

definition analyze_supply_chain ::
  "'db externals \<Rightarrow> package_registries \<Rightarrow> string \<Rightarrow> int \<Rightarrow> 'db \<Rightarrow> sbom
     \<Rightarrow> error + (SupplyChainAnalysis \<times> 'db)" where
  "analyze_supply_chain x regs analysis_id timestamp db sbom_data =
     (let (g, logged) = build_dependency_graph regs sbom_data;
          nodes = analyze_nodes x g
      in case analyze_edges x g of
           Inl err \<Rightarrow> Inl err
         | Inr edge_list \<Rightarrow>
            (let results = perform_graph_analysis x g nodes edge_list;
                 supply_chain_score = calculate_supply_chain_score nodes edge_list results
             in case generate_recommendations results nodes edge_list of
                  Inl err \<Rightarrow> Inl err
                | Inr recommendations \<Rightarrow>
                   (let analysis =
                      \<lparr>a_analysis_id = analysis_id,
                       a_timestamp = timestamp,
                       a_total_nodes = length nodes,
                       a_total_edges = length edge_list,
                       a_max_depth = r_max_depth results,
                       a_risk_distribution = r_risk_distribution results,
                       a_trust_distribution = r_trust_distribution results,
                       a_critical_paths = r_critical_paths results,
                       a_vulnerable_paths = r_vulnerable_paths results,
                       a_orphaned_dependencies = r_orphaned_dependencies results,
                       a_circular_dependencies = r_circular_dependencies results,
                       a_single_points_of_failure = r_single_points_of_failure results,
                       a_supply_chain_score = supply_chain_score,
                       a_recommendations = recommendations,
                       a_nodes = nodes,
                       a_edges = edge_list\<rparr>
                    in Inr (analysis, x_store_analysis x db analysis))))"

subsection \<open>The statements of the specification, and fixtures\<close>

definition clamp :: "real \<Rightarrow> real \<Rightarrow> real \<Rightarrow> real" where
  "clamp v lo hi = max lo (min hi v)"

text \<open>The aggregate score as the specification words it: the mean of
  \<open>10 - risk_score\<close>, minus the sum of the five weighted counts, clamped once.\<close>

definition spec_base_score :: "SupplyChainNode list \<Rightarrow> real" where
  "spec_base_score nodes =
     sum_list (map (\<lambda>n. 10 - n_risk_score n) nodes) / real (length nodes)"

definition spec_total_penalties :: "SupplyChainNode list \<Rightarrow> analysis_results \<Rightarrow> real" where
  "spec_total_penalties nodes results =
     0.5 * real (length (r_circular_dependencies results)) +
     0.3 * real (length (r_single_points_of_failure results)) +
     0.2 * real (length (r_orphaned_dependencies results)) +
     0.4 * real (length (filter (\<lambda>n. n_risk_score n > 7) nodes)) +
     0.6 * real (length (filter (\<lambda>n. n_trust_level n = UNTRUSTED) nodes))"

definition spec_supply_chain_score :: "SupplyChainNode list \<Rightarrow> analysis_results \<Rightarrow> real" where
  "spec_supply_chain_score nodes results =
     clamp (spec_base_score nodes - spec_total_penalties nodes results) 0 10"

text \<open>
  The per-node risk score as the specification words it, with the age in days above
  which a package counts as very old as a parameter: the specification says five years,
  \<open>five_years\<close> below.
\<close>

definition five_years :: int where
  "five_years = 5 * 365"

definition spec_age_penalty :: "int \<Rightarrow> int \<Rightarrow> real" where
  "spec_age_penalty very_old age = (if age < 30 then 1.0 else if age > very_old then 0.5 else 0)"

definition spec_popularity_penalty :: "int \<Rightarrow> real" where
  "spec_popularity_penalty dl = (if dl < 1000 then 1.0 else if dl < 10000 then 0.5 else 0)"

definition spec_maintainer_penalty :: "nat \<Rightarrow> real" where
  "spec_maintainer_penalty k = (if k = 1 then 0.5 else if k = 0 then 1.0 else 0)"

definition spec_depth_penalty :: "nat option \<Rightarrow> real" where
  "spec_depth_penalty depth = (case depth of None \<Rightarrow> 0 | Some k \<Rightarrow> 0.1 * real k)"

definition spec_node_risk_score ::
  "int \<Rightarrow> 'db externals \<Rightarrow> node_data \<Rightarrow> graph \<Rightarrow> string \<Rightarrow> real" where
  "spec_node_risk_score very_old x nd g node_id =
     clamp (real_of_int (critical_vulns_of nd) * 2.0 +
            real_of_int (vuln_count_of nd) * 0.5 +
            spec_age_penalty very_old (age_days_of nd) +
            spec_popularity_penalty (downloads_of nd) +
            spec_maintainer_penalty (maintainer_count_of nd) +
            spec_depth_penalty (depth_of x g node_id)) 0 10"

text \<open>
  A breadth-first search for the length of a shortest directed path, level by level;
  the levels of a graph with \<open>n\<close> nodes are at most \<open>n\<close>. It stands for
  \<^verbatim>\<open>networkx.shortest_path_length\<close> in the concrete examples.
\<close>

fun bfs_levels :: "graph \<Rightarrow> nat \<Rightarrow> string list \<Rightarrow> string list \<Rightarrow> string \<Rightarrow> nat \<Rightarrow> nat option" where
  "bfs_levels g 0 frontier seen target d = None"
| "bfs_levels g (Suc fuel) frontier seen target d =
     (if target \<in> set frontier then Some d
      else
        let next = remdups (filter (\<lambda>v. v \<notin> set seen) (concat (map (successors g) frontier)))
        in if next = [] then None
           else bfs_levels g fuel next (seen @ next) target (Suc d))"

definition bfs_shortest_path_length :: "graph \<Rightarrow> string \<Rightarrow> string \<Rightarrow> nat option" where
  "bfs_shortest_path_length g s t =
     (if has_node g s \<and> has_node g t then bfs_levels g (length g) [s] [s] t 0 else None)"

text \<open>Externals for the concrete examples: the search above, and helper methods that
  report nothing.\<close>

definition sample_externals :: "unit externals" where
  "sample_externals =
     \<lparr>x_shortest_path_length = bfs_shortest_path_length,
      x_extract_maintainer_info = (\<lambda>nd. []),
      x_extract_repository_info = (\<lambda>nd. []),
      x_extract_security_metrics = (\<lambda>nd. []),
      x_find_dependency_introducer = (\<lambda>g s t. None),
      x_calculate_edge_risk_contribution = (\<lambda>g s t. 0),
      x_calculate_max_depth = (\<lambda>g. 0),
      x_calculate_risk_distribution = (\<lambda>ns. []),
      x_calculate_trust_distribution = (\<lambda>ns. []),
      x_find_critical_paths = (\<lambda>g ns. []),
      x_find_vulnerable_paths = (\<lambda>g ns. []),
      x_find_orphaned_dependencies = (\<lambda>g. []),
      x_find_circular_dependencies = (\<lambda>g. []),
      x_find_single_points_of_failure = (\<lambda>g. []),
      x_store_analysis = (\<lambda>db a. db)\<rparr>"

text \<open>Node attributes with nothing but enrichment data.\<close>

definition bare_node :: "registry_info option \<Rightarrow> security_info option \<Rightarrow> trust_info option \<Rightarrow> node_data" where
  "bare_node r s t =
     \<lparr>nd_name = Some ''pkg'', nd_version = Some ''1.0'', nd_type = Some ''library'',
      nd_purl = Absent, nd_scope = Absent, nd_extra = [],
      nd_registry_info = r, nd_security_info = s, nd_trust_info = t\<rparr>"

text \<open>The pair of node identifiers a dependency record resolves to, if it passes the
  test of the dependency loop on a graph.\<close>

definition dependency_pair :: "graph \<Rightarrow> edge_data \<Rightarrow> (string \<times> string) option" where
  "dependency_pair g dep =
     (case ed_source dep of None \<Rightarrow> None
      | Some s \<Rightarrow>
         (case ed_target dep of None \<Rightarrow> None
          | Some t \<Rightarrow>
             if s \<noteq> [] \<and> t \<noteq> [] \<and> has_node g s \<and> has_node g t then Some (s, t) else None))"

definition dependency_resolves :: "graph \<Rightarrow> edge_data \<Rightarrow> bool" where
  "dependency_resolves g dep = (dependency_pair g dep \<noteq> None)"

definition resolved_pairs :: "graph \<Rightarrow> edge_data list \<Rightarrow> (string \<times> string) list" where
  "resolved_pairs g deps = List.map_filter (dependency_pair g) deps"


text \<open>A run's outcome without the two fields that are drawn per run (the identifier
  and the clock reading) and without the database.\<close>

definition outcome :: "error + (SupplyChainAnalysis \<times> 'db) \<Rightarrow> error + SupplyChainAnalysis" where
  "outcome r =
     (case r of
        Inl err \<Rightarrow> Inl err
      | Inr (a, db) \<Rightarrow> Inr (a\<lparr>a_analysis_id := [], a_timestamp := 0\<rparr>))"

definition sample_node :: "real \<Rightarrow> TrustLevel \<Rightarrow> SupplyChainNode" where
  "sample_node risk trust =
     \<lparr>n_id = ''pkg@1.0'', n_name = Some ''pkg'', n_version = Some ''1.0'',
      n_package_manager = ''unknown'', n_dependency_type = DIRECT,
      n_trust_level = trust, n_risk_score = risk,
      n_maintainer_info = [], n_repository_info = [], n_security_metrics = [],
      n_metadata = bare_node None None None\<rparr>"

definition sample_results :: "string list list \<Rightarrow> string list \<Rightarrow> string list \<Rightarrow> analysis_results" where
  "sample_results cycles spofs orphans =
     \<lparr>r_max_depth = 0, r_average_degree = 0, r_risk_distribution = [],
      r_trust_distribution = [], r_critical_paths = [], r_vulnerable_paths = [],
      r_orphaned_dependencies = orphans, r_circular_dependencies = cycles,
      r_single_points_of_failure = spofs\<rparr>"

text \<open>A CycloneDX component with a name and a version and nothing else.\<close>

definition cdx :: "string field \<Rightarrow> string field \<Rightarrow> string field \<Rightarrow> cdx_component" where
  "cdx name version purl =
     \<lparr>cc_name = name, cc_version = version, cc_type = Absent, cc_purl = purl,
      cc_scope = Absent, cc_licenses = Absent, cc_hashes = Absent\<rparr>"

text \<open>
  Fixtures of the concrete examples: a registry whose npm client raises an
  \<^verbatim>\<open>Exception\<close> for the package \<open>bad\<close> and a cancellation for the package \<open>gone\<close>,
  component dicts, a dependency dict, a graph of one node, node attributes
  with chosen enrichment data, a chain of \<open>n + 1\<close> nodes whose first node has one
  critical vulnerability, and the scenario of the specification (three components, two
  dependencies).
\<close>

definition flaky_registries :: package_registries where
  "flaky_registries package_manager =
     (if package_manager = ''npm''
      then Some (\<lambda>name version.
             if name = Some ''bad'' then Inl (Exception ''timeout'')
             else if name = Some ''gone'' then Inl (BaseException ''cancelled'')
             else Inr empty_registry_info)
      else None)"

definition bad_component :: node_data where
  "bad_component = cdx_component_dict (cdx (Val ''bad'') (Val ''1.0'') (Val ''pkg:npm/bad@1.0''))"

definition gone_component :: node_data where
  "gone_component = cdx_component_dict (cdx (Val ''gone'') (Val ''1.5'') (Val ''pkg:npm/gone@1.5''))"

definition good_component :: node_data where
  "good_component = cdx_component_dict (cdx (Val ''good'') (Val ''2.0'') (Val ''pkg:npm/good@2.0''))"

definition npm_components :: "node_data list" where
  "npm_components = [bad_component, gone_component, good_component]"

definition ab_components :: "node_data list" where
  "ab_components =
     map cdx_component_dict [cdx (Val ''A'') (Val ''1.0'') Absent, cdx (Val ''B'') (Val ''2.0'') Absent]"

definition depends_on :: "string \<Rightarrow> string \<Rightarrow> edge_data" where
  "depends_on s t = \<lparr>ed_source = Some s, ed_target = Some t, ed_type = ''depends_on''\<rparr>"

definition single_node_graph :: "node_data \<Rightarrow> graph" where
  "single_node_graph nd = [\<lparr>ne_id = ''pkg@1.0'', ne_data = nd, ne_succ = []\<rparr>]"

definition vulnerable_node :: "int \<Rightarrow> int \<Rightarrow> node_data" where
  "vulnerable_node count critical =
     bare_node None
       (Some \<lparr>vulnerability_count = Some count, critical_vulnerabilities = Some critical,
              security_advisories = Some []\<rparr>) None"

definition aged_node :: "int \<Rightarrow> node_data" where
  "aged_node days =
     bare_node (Some \<lparr>age_days = Some days, downloads = Some 50000,
                      maintainers = Some [''ann'', ''bob'']\<rparr>) None None"

definition trust_node :: "bool \<Rightarrow> real \<Rightarrow> int \<Rightarrow> node_data" where
  "trust_node s r k =
     bare_node None None
       (Some \<lparr>signed = Some s, maintainer_reputation = Some r, security_incidents = Some k\<rparr>)"





text \<open>
  What the builder maintains: node identifiers are unique, a node has each successor
  once, and every successor is a node.
\<close>

definition graph_ok :: "graph \<Rightarrow> bool" where
  "graph_ok g =
     (distinct (node_ids g) \<and>
      (\<forall>e \<in> set g. distinct (map fst (ne_succ e)) \<and> set (map fst (ne_succ e)) \<subseteq> set (node_ids g)))"



section \<open>Properties\<close>

lemmas input_defs =
  cdx_def cdx_component_dict_def cdx_dependency_dicts_def spdx_package_dict_def
  spdx_relationship_dicts_def dict_get_def dict_get_default_def stored_def py_format_def
  json_get_default_def json_of_def node_id_of_def

lemmas fixture_defs =
  ab_components_def npm_components_def bad_component_def gone_component_def good_component_def
  depends_on_def flaky_registries_def

subsection \<open>Nodes and edges of the graph under construction\<close>

lemma node_ids_add_node: "set (node_ids (add_node g n c)) = insert n (set (node_ids g))"
  by (induction g) (auto simp: node_ids_def)

lemma distinct_add_node: "distinct (node_ids g) \<Longrightarrow> distinct (node_ids (add_node g n c))"
proof (induction g)
  case Nil
  then show ?case by (simp add: node_ids_def)
next
  case (Cons e g)
  have "set (node_ids (add_node g n c)) = insert n (set (node_ids g))"
    by (rule node_ids_add_node)
  with Cons show ?case by (auto simp: node_ids_def)
qed

lemma succ_add_node:
  "e \<in> set (add_node g n c) \<Longrightarrow> ne_succ e = [] \<or> (\<exists>e' \<in> set g. ne_succ e = ne_succ e')"
  by (induction g) (auto split: if_splits)

lemma graph_ok_add_node: "graph_ok g \<Longrightarrow> graph_ok (add_node g n c)"
  unfolding graph_ok_def
  using distinct_add_node[of g n c] node_ids_add_node[of g n c] succ_add_node[of _ g n c]
  by (metis distinct.simps(1) empty_iff empty_set list.map_disc_iff subset_iff insert_iff subsetI)

lemma graph_ok_add_components: "graph_ok g \<Longrightarrow> graph_ok (add_components g cs)"
  by (induction cs arbitrary: g) (simp_all add: graph_ok_add_node)

lemma graph_ok_empty: "graph_ok []"
  by (simp add: graph_ok_def node_ids_def)

lemma node_ids_add_edge: "node_ids (add_edge g u v d) = node_ids g"
  by (simp add: node_ids_def add_edge_def comp_def if_distrib[of ne_id] cong: if_cong)

lemma keys_put_succ: "fst ` set (put_succ ss v d) = insert v (fst ` set ss)"
  by (induction ss v d rule: put_succ.induct) auto

lemma distinct_put_succ: "distinct (map fst ss) \<Longrightarrow> distinct (map fst (put_succ ss v d))"
proof (induction ss v d rule: put_succ.induct)
  case (1 v d)
  then show ?case by simp
next
  case (2 w x ss v d)
  then show ?case using keys_put_succ[of ss v d] by auto
qed

lemma graph_ok_add_edge:
  assumes "graph_ok g" and "has_node g v"
  shows "graph_ok (add_edge g u v d)"
proof -
  have "distinct (map fst (ne_succ e')) \<and> fst ` set (ne_succ e') \<subseteq> set (node_ids g)"
    if "e' \<in> set (add_edge g u v d)" for e'
  proof -
    from that obtain e where e: "e \<in> set g"
      and e': "e' = (if ne_id e = u then e\<lparr>ne_succ := put_succ (ne_succ e) v d\<rparr> else e)"
      by (auto simp: add_edge_def)
    from assms(1) e have "distinct (map fst (ne_succ e))" "fst ` set (ne_succ e) \<subseteq> set (node_ids g)"
      by (auto simp: graph_ok_def)
    then show ?thesis
      using assms(2) by (simp add: e' distinct_put_succ keys_put_succ has_node_def)
  qed
  then show ?thesis
    using assms(1) by (simp add: graph_ok_def node_ids_add_edge)
qed

text \<open>
  The test of the dependency loop, through \<open>dependency_pair\<close>; it reads the node set
  only, which no edge changes.
\<close>

lemma add_dependency_pair:
  "add_dependency g dep =
     (case dependency_pair g dep of None \<Rightarrow> g | Some (s, t) \<Rightarrow> add_edge g s t dep)"
  by (simp add: add_dependency_def dependency_pair_def truthy_def split: option.splits)

lemma node_ids_add_dependency: "node_ids (add_dependency g dep) = node_ids g"
  by (simp add: add_dependency_pair node_ids_add_edge split: option.splits)

lemma node_ids_add_dependencies: "node_ids (add_dependencies g deps) = node_ids g"
  by (induction deps arbitrary: g) (simp_all add: node_ids_add_dependency)

lemma dependency_pair_cong: "node_ids g' = node_ids g \<Longrightarrow> dependency_pair g' dep = dependency_pair g dep"
  by (simp add: dependency_pair_def has_node_def split: option.splits)

lemma dependency_pair_nodes:
  "dependency_pair g dep = Some (s, t) \<Longrightarrow> has_node g s \<and> has_node g t"
  by (auto simp: dependency_pair_def split: option.splits if_splits)

lemma graph_ok_add_dependency: "graph_ok g \<Longrightarrow> graph_ok (add_dependency g dep)"
  by (auto simp: add_dependency_pair graph_ok_add_edge dependency_pair_nodes split: option.splits)

lemma graph_ok_add_dependencies: "graph_ok g \<Longrightarrow> graph_ok (add_dependencies g deps)"
  by (induction deps arbitrary: g) (simp_all add: graph_ok_add_dependency)

lemma add_dependencies_append:
  "add_dependencies g (ds1 @ ds2) = add_dependencies (add_dependencies g ds1) ds2"
  by (induction ds1 arbitrary: g) simp_all

lemma unresolved_dropped:
  assumes "\<not> dependency_resolves g dep"
  shows "add_dependencies g (ds1 @ dep # ds2) = add_dependencies g (ds1 @ ds2)"
proof -
  have "dependency_pair (add_dependencies g ds1) dep = dependency_pair g dep"
    by (rule dependency_pair_cong) (rule node_ids_add_dependencies)
  with assms have "add_dependency (add_dependencies g ds1) dep = add_dependencies g ds1"
    by (cases "dependency_pair g dep") (simp_all add: add_dependency_pair dependency_resolves_def)
  then show ?thesis by (simp add: add_dependencies_append)
qed

text \<open>
  The edge list: pairs are distinct in a graph that satisfies \<open>graph_ok\<close>, and an
  added edge is one more pair, or none when the pair is there already.
\<close>

lemma edge_pairs_alt:
  "edge_pairs g = concat (map (\<lambda>e. map (\<lambda>p. (ne_id e, fst p)) (ne_succ e)) g)"
  by (simp add: edge_pairs_def edges_def map_concat comp_def case_prod_beta)

lemma set_edge_pairs:
  "set (edge_pairs g) = {(ne_id e, v) | e v. e \<in> set g \<and> v \<in> set (map fst (ne_succ e))}"
  by (auto simp: edge_pairs_alt)

lemma edge_pairs_nodes:
  assumes "graph_ok g" and "(u, v) \<in> set (edge_pairs g)"
  shows "has_node g u \<and> has_node g v"
  using assms by (auto simp: set_edge_pairs graph_ok_def has_node_def node_ids_def)

lemma distinct_edge_pairs: "graph_ok g \<Longrightarrow> distinct (edge_pairs g)"
proof (induction g)
  case Nil
  then show ?case by (simp add: edge_pairs_alt)
next
  case (Cons e g)
  from Cons.prems have ok: "distinct (node_ids (e # g))"
    and d: "\<forall>e' \<in> set (e # g). distinct (map fst (ne_succ e'))"
    by (simp_all add: graph_ok_def)
  have 1: "distinct (map (\<lambda>p. (ne_id e, fst p)) (ne_succ e))"
    using d by (simp add: distinct_map inj_on_def)
  have 2: "distinct (edge_pairs g)"
  proof -
    have "distinct (concat (map (\<lambda>e. map (\<lambda>p. (ne_id e, fst p)) (ne_succ e)) g))"
      using ok d
    proof (induction g)
      case Nil then show ?case by simp
    next
      case (Cons a g)
      have "distinct (map (\<lambda>p. (ne_id a, fst p)) (ne_succ a))"
        using Cons.prems(2) by (simp add: distinct_map inj_on_def)
      moreover have "distinct (concat (map (\<lambda>e. map (\<lambda>p. (ne_id e, fst p)) (ne_succ e)) g))"
        using Cons by (simp add: node_ids_def)
      moreover have "set (map (\<lambda>p. (ne_id a, fst p)) (ne_succ a)) \<inter>
         set (concat (map (\<lambda>e. map (\<lambda>p. (ne_id e, fst p)) (ne_succ e)) g)) = {}"
        using Cons.prems(1) by (auto simp: node_ids_def)
      ultimately show ?case by simp
    qed
    then show ?thesis by (simp add: edge_pairs_alt)
  qed
  have 3: "set (map (\<lambda>p. (ne_id e, fst p)) (ne_succ e)) \<inter> set (edge_pairs g) = {}"
    using ok by (auto simp: set_edge_pairs node_ids_def)
  show ?case using 1 2 3 by (simp add: edge_pairs_alt)
qed

lemma edge_pairs_Cons:
  "edge_pairs (e # g) = map (\<lambda>p. (ne_id e, fst p)) (ne_succ e) @ edge_pairs g"
  by (simp add: edge_pairs_alt)

lemma add_edge_Cons:
  "add_edge (e # g) u v d =
     (if ne_id e = u then e\<lparr>ne_succ := put_succ (ne_succ e) v d\<rparr> else e) # add_edge g u v d"
  by (simp add: add_edge_def)

lemma has_node_Cons: "has_node (e # g) n = (ne_id e = n \<or> has_node g n)"
  by (auto simp: has_node_def node_ids_def)

lemma pair_keys_put_succ:
  "(\<lambda>p. (u, fst p)) ` set (put_succ ss v d) = insert (u, v) ((\<lambda>p. (u, fst p)) ` set ss)"
  by (induction ss v d rule: put_succ.induct) auto

lemma set_edge_pairs_add_edge_if:
  "set (edge_pairs (add_edge g u v d)) =
     set (edge_pairs g) \<union> (if has_node g u then {(u, v)} else {})"
proof (induction g)
  case Nil
  then show ?case by (simp add: add_edge_def has_node_def node_ids_def)
next
  case (Cons e g)
  show ?case
  proof (cases "ne_id e = u")
    case True
    then show ?thesis
      using Cons.IH by (auto simp: add_edge_Cons edge_pairs_Cons has_node_Cons pair_keys_put_succ)
  next
    case False
    then show ?thesis
      using Cons.IH by (auto simp: add_edge_Cons edge_pairs_Cons has_node_Cons)
  qed
qed

lemma set_edge_pairs_add_edge:
  "has_node g u \<Longrightarrow> set (edge_pairs (add_edge g u v d)) = insert (u, v) (set (edge_pairs g))"
  by (simp add: set_edge_pairs_add_edge_if)

lemma resolved_pairs_Nil: "resolved_pairs g [] = []"
  by (simp add: resolved_pairs_def)

lemma resolved_pairs_Cons:
  "resolved_pairs g (dep # deps) =
     (case dependency_pair g dep of None \<Rightarrow> resolved_pairs g deps
      | Some p \<Rightarrow> p # resolved_pairs g deps)"
  by (simp add: resolved_pairs_def split: option.splits)

lemma resolved_pairs_cong: "node_ids g' = node_ids g \<Longrightarrow> resolved_pairs g' deps = resolved_pairs g deps"
proof -
  assume "node_ids g' = node_ids g"
  then have "dependency_pair g' = dependency_pair g"
    by (intro ext dependency_pair_cong)
  then show ?thesis by (simp add: resolved_pairs_def)
qed

lemma set_edge_pairs_add_dependency:
  "set (edge_pairs (add_dependency g dep)) = set (edge_pairs g) \<union> set (resolved_pairs g [dep])"
proof (cases "dependency_pair g dep")
  case None
  then show ?thesis by (simp add: add_dependency_pair resolved_pairs_Cons resolved_pairs_Nil)
next
  case (Some p)
  obtain s t where p: "p = (s, t)" by (cases p)
  with Some have "has_node g s" by (auto dest: dependency_pair_nodes)
  then show ?thesis
    using Some p by (simp add: add_dependency_pair resolved_pairs_Cons resolved_pairs_Nil set_edge_pairs_add_edge)
qed

lemma set_edge_pairs_add_dependencies:
  "set (edge_pairs (add_dependencies g deps)) = set (edge_pairs g) \<union> set (resolved_pairs g deps)"
proof (induction deps arbitrary: g)
  case Nil
  then show ?case by (simp add: resolved_pairs_Nil)
next
  case (Cons dep deps)
  have "resolved_pairs (add_dependency g dep) deps = resolved_pairs g deps"
    by (rule resolved_pairs_cong) (rule node_ids_add_dependency)
  moreover have "set (resolved_pairs g (dep # deps)) = set (resolved_pairs g [dep]) \<union> set (resolved_pairs g deps)"
    by (simp add: resolved_pairs_Cons resolved_pairs_Nil split: option.splits)
  ultimately show ?case
    using Cons.IH[of "add_dependency g dep"] set_edge_pairs_add_dependency[of g dep]
    by (simp add: Un_assoc)
qed

lemma no_succ_add_node:
  "\<forall>e \<in> set g. ne_succ e = [] \<Longrightarrow> \<forall>e \<in> set (add_node g n c). ne_succ e = []"
  by (induction g) auto

lemma no_succ_add_components:
  "\<forall>e \<in> set g. ne_succ e = [] \<Longrightarrow> \<forall>e \<in> set (add_components g cs). ne_succ e = []"
proof (induction cs arbitrary: g)
  case Nil
  then show ?case by simp
next
  case (Cons c cs)
  then show ?case using no_succ_add_node[of g "node_id_of c" c] by simp
qed

lemma edge_pairs_add_components: "edge_pairs (add_components [] cs) = []"
  using no_succ_add_components[of "[]" cs] by (simp add: edge_pairs_alt)

subsection \<open>Enrichment in batches\<close>

text \<open>
  The batches partition the node list in order, so enrichment is one pass over the
  nodes, each node receiving the result of its own lookups.
\<close>

lemma chunks_concat: "0 < n \<Longrightarrow> concat (chunks n xs) = xs"
proof (induction n xs rule: chunks.induct)
  case (1 n xs)
  show ?case
  proof (cases "xs = []")
    case True
    then show ?thesis by (simp add: chunks.simps[of n "[]"])
  next
    case False
    with 1 have "concat (chunks n (drop n xs)) = drop n xs" by simp
    with False 1(2) show ?thesis by (simp add: chunks.simps[of n xs])
  qed
qed

lemma concat_map_concat:
  "concat (map (\<lambda>b. concat (map f b)) bs) = concat (map f (concat bs))"
  by (induction bs) simp_all

lemma enrich_graph_fst:
  "fst (enrich_dependency_graph regs g) = map (\<lambda>e. fst (enrich_entry regs e)) g"
proof -
  have "fst (enrich_dependency_graph regs g) =
          concat (map (map (\<lambda>e. fst (enrich_entry regs e))) (chunks batch_size g))"
    by (simp add: enrich_dependency_graph_def enrich_batch_def Let_def comp_def)
  also have "\<dots> = map (\<lambda>e. fst (enrich_entry regs e)) (concat (chunks batch_size g))"
    by (simp add: map_concat)
  finally show ?thesis by (simp add: chunks_concat batch_size_def)
qed

lemma enrich_graph_snd:
  "snd (enrich_dependency_graph regs g) = concat (map (\<lambda>e. snd (enrich_entry regs e)) g)"
proof -
  have "snd (enrich_dependency_graph regs g) =
          concat (map (\<lambda>b. concat (map (\<lambda>e. snd (enrich_entry regs e)) b)) (chunks batch_size g))"
    by (simp add: enrich_dependency_graph_def enrich_batch_def Let_def comp_def)
  also have "\<dots> = concat (map (\<lambda>e. snd (enrich_entry regs e)) (concat (chunks batch_size g)))"
    by (rule concat_map_concat)
  finally show ?thesis by (simp add: chunks_concat batch_size_def)
qed

lemma enrich_entry_id: "ne_id (fst (enrich_entry regs e)) = ne_id e"
  by (simp add: enrich_entry_def case_prod_beta split: sum.splits)

lemma enrich_entry_succ: "ne_succ (fst (enrich_entry regs e)) = ne_succ e"
  by (simp add: enrich_entry_def case_prod_beta split: sum.splits)


lemma node_ids_enrich: "node_ids (fst (enrich_dependency_graph regs g)) = node_ids g"
  by (simp add: enrich_graph_fst enrich_entry_id node_ids_def comp_def)

lemma edges_enrich: "edges (fst (enrich_dependency_graph regs g)) = edges g"
  by (simp add: enrich_graph_fst enrich_entry_id enrich_entry_succ edges_def comp_def)

lemma edge_pairs_enrich: "edge_pairs (fst (enrich_dependency_graph regs g)) = edge_pairs g"
  by (simp add: edge_pairs_def edges_enrich)

lemma graph_ok_built: "graph_ok (add_dependencies (add_components [] cs) ds)"
  by (intro graph_ok_add_dependencies graph_ok_add_components graph_ok_empty)

lemma build_graph_fst:
  "fst (build_graph regs cs ds) =
     map (\<lambda>e. fst (enrich_entry regs e)) (add_dependencies (add_components [] cs) ds)"
  by (simp add: build_graph_def Let_def enrich_graph_fst)

lemma build_graph_snd:
  "snd (build_graph regs cs ds) =
     concat (map (\<lambda>e. snd (enrich_entry regs e)) (add_dependencies (add_components [] cs) ds))"
  by (simp add: build_graph_def Let_def enrich_graph_snd)

lemma edge_pairs_built:
  "edge_pairs (fst (build_graph regs cs ds)) = edge_pairs (add_dependencies (add_components [] cs) ds)"
  by (simp add: build_graph_def Let_def edge_pairs_enrich)



lemma node_ids_built:
  "node_ids (fst (build_graph regs cs ds)) = node_ids (add_components [] cs)"
  by (simp add: build_graph_def Let_def node_ids_enrich node_ids_add_dependencies)

lemmas builder_defs =
  build_dependency_graph_def build_graph_fst build_graph_snd add_dependency_def truthy_def
  has_node_def node_ids_def add_edge_def update_component_def

lemmas enrich_defs =
  enrich_entry_def enrich_node_data_def handle_def extract_package_manager_def startswith_def
  installed_registries_def placeholder_client_def get_security_information_def
  get_trust_information_def security_placeholder_def trust_placeholder_def
  no_enrichment_def update_enriched_def empty_registry_info_def warning_def

lemmas score_defs =
  vuln_count_of_def critical_vulns_of_def registry_info_of_def age_days_of_def downloads_of_def
  maintainer_count_of_def depth_of_def empty_registry_info_def bare_node_def
  vulnerable_node_def aged_node_def single_node_graph_def sample_externals_def
  bfs_shortest_path_length_def has_node_def node_ids_def successors_def

subsection \<open>The graph builder\<close>

text \<open>
  Claim C6. The builder adds a dependency edge only between two nodes of the graph:
  every edge of the built graph has its source and its target in the node set. A
  relationship record that fails the test of the dependency loop on the component
  nodes (its source or target is missing, empty or not a node identifier) is dropped
  without an error: the graph and the warnings built from the records around it are
  those built without it.
\<close>

theorem dangling_dependency_dropped:
  "(\<forall>(u, v) \<in> set (edge_pairs (fst (build_graph regs cs ds))).
      has_node (fst (build_graph regs cs ds)) u \<and> has_node (fst (build_graph regs cs ds)) v) \<and>
   (\<not> dependency_resolves (add_components [] cs) dep \<longrightarrow>
      build_graph regs cs (ds1 @ dep # ds2) = build_graph regs cs (ds1 @ ds2))"
proof (intro conjI impI)
  let ?g2 = "add_dependencies (add_components [] cs) ds"
  have "has_node ?g2 u \<and> has_node ?g2 v" if "(u, v) \<in> set (edge_pairs ?g2)" for u v
    using graph_ok_built that by (rule edge_pairs_nodes)
  moreover have "has_node (fst (build_graph regs cs ds)) n = has_node ?g2 n" for n
    by (simp add: has_node_def node_ids_built node_ids_add_dependencies)
  ultimately show "\<forall>(u, v) \<in> set (edge_pairs (fst (build_graph regs cs ds))).
      has_node (fst (build_graph regs cs ds)) u \<and> has_node (fst (build_graph regs cs ds)) v"
    by (auto simp: edge_pairs_built)
next
  assume "\<not> dependency_resolves (add_components [] cs) dep"
  then show "build_graph regs cs (ds1 @ dep # ds2) = build_graph regs cs (ds1 @ ds2)"
    by (simp add: build_graph_def Let_def unresolved_dropped)
qed

text \<open>
  Witness for C6: with the components \<open>A@1.0\<close> and \<open>B@2.0\<close>, the record
  \<open>A@1.0 \<rightarrow> C@3.0\<close> does not resolve, and the build with it is the build without
  it; the edge \<open>A@1.0 \<rightarrow> B@2.0\<close> is there, between two nodes.
\<close>

theorem dangling_dependency_dropped_witness:
  "\<not> dependency_resolves (add_components [] ab_components) (depends_on ''A@1.0'' ''C@3.0'') \<and>
   build_graph installed_registries ab_components
     [depends_on ''A@1.0'' ''B@2.0'', depends_on ''A@1.0'' ''C@3.0''] =
   build_graph installed_registries ab_components [depends_on ''A@1.0'' ''B@2.0''] \<and>
   edge_pairs (fst (build_graph installed_registries ab_components
     [depends_on ''A@1.0'' ''B@2.0'', depends_on ''A@1.0'' ''C@3.0''])) = [(''A@1.0'', ''B@2.0'')] \<and>
   node_ids (fst (build_graph installed_registries ab_components
     [depends_on ''A@1.0'' ''B@2.0'', depends_on ''A@1.0'' ''C@3.0''])) = [''A@1.0'', ''B@2.0'']"
proof -
  have unresolved:
    "\<not> dependency_resolves (add_components [] ab_components) (depends_on ''A@1.0'' ''C@3.0'')"
    by (simp add: dependency_resolves_def dependency_pair_def fixture_defs input_defs
        has_node_def node_ids_def)
  with dangling_dependency_dropped[of installed_registries ab_components "[]"
      "depends_on ''A@1.0'' ''C@3.0''" "[depends_on ''A@1.0'' ''B@2.0'']" "[]"]
  have same: "build_graph installed_registries ab_components
       [depends_on ''A@1.0'' ''B@2.0'', depends_on ''A@1.0'' ''C@3.0''] =
     build_graph installed_registries ab_components [depends_on ''A@1.0'' ''B@2.0'']"
    by simp
  have "edge_pairs (fst (build_graph installed_registries ab_components
       [depends_on ''A@1.0'' ''B@2.0''])) = [(''A@1.0'', ''B@2.0'')]"
    by (simp add: fixture_defs input_defs builder_defs enrich_defs edge_pairs_def edges_def Let_def)
  moreover have "node_ids (fst (build_graph installed_registries ab_components
       [depends_on ''A@1.0'' ''B@2.0''])) = [''A@1.0'', ''B@2.0'']"
    unfolding node_ids_built by (simp add: fixture_defs input_defs node_ids_def)
  ultimately show ?thesis using unresolved same by simp
qed

text \<open>
  Counterexample to claim C4 as stated (one edge of the analysis per
  \<^verbatim>\<open>dependsOn\<close> entry, duplicates kept, counted by \<open>total_edges\<close>): an SBOM that
  lists \<open>B@2.0\<close> twice under \<open>A@1.0\<close> has two dependency records, the graph has
  one edge for them, and the edge analysis returns no edge list for this graph.
\<close>

theorem duplicate_dependency_counterexample:
  "length (extract_dependencies
     (CycloneDX [cdx (Val ''A'') (Val ''1.0'') Absent, cdx (Val ''B'') (Val ''2.0'') Absent]
        [\<lparr>cd_ref = Val ''A@1.0'', cd_dependsOn = [Some ''B@2.0'', Some ''B@2.0'']\<rparr>])) = 2 \<and>
   edge_pairs (fst (build_dependency_graph installed_registries
     (CycloneDX [cdx (Val ''A'') (Val ''1.0'') Absent, cdx (Val ''B'') (Val ''2.0'') Absent]
        [\<lparr>cd_ref = Val ''A@1.0'', cd_dependsOn = [Some ''B@2.0'', Some ''B@2.0'']\<rparr>]))) =
     [(''A@1.0'', ''B@2.0'')] \<and>
   analyze_edges sample_externals (fst (build_dependency_graph installed_registries
     (CycloneDX [cdx (Val ''A'') (Val ''1.0'') Absent, cdx (Val ''B'') (Val ''2.0'') Absent]
        [\<lparr>cd_ref = Val ''A@1.0'', cd_dependsOn = [Some ''B@2.0'', Some ''B@2.0'']\<rparr>]))) =
     Inl (ValueError (CHR 0x27 # ''depends_on'' @ CHR 0x27 # '' is not a valid DependencyType''))"
  by (simp add: analyze_edges_def DependencyType_of_def input_defs builder_defs enrich_defs
      edge_pairs_def edges_def Let_def)

text \<open>
  Claim C4, amended. The graph keeps one edge for each distinct (source, target) pair
  among the dependency records that resolve on the component nodes: the edge list of
  the built graph has no pair twice, its pairs are exactly the resolved pairs (a
  self-loop among them is an edge like any other), and the number of edges is the number
  of distinct resolved pairs.
\<close>

theorem graph_edges_distinct_pairs:
  "distinct (edge_pairs (fst (build_graph regs cs ds))) \<and>
   set (edge_pairs (fst (build_graph regs cs ds))) = set (resolved_pairs (add_components [] cs) ds) \<and>
   length (edge_pairs (fst (build_graph regs cs ds))) =
     length (remdups (resolved_pairs (add_components [] cs) ds))"
proof -
  let ?es = "edge_pairs (fst (build_graph regs cs ds))"
  have d: "distinct ?es"
    unfolding edge_pairs_built using graph_ok_built by (rule distinct_edge_pairs)
  have s: "set ?es = set (resolved_pairs (add_components [] cs) ds)"
    by (simp add: edge_pairs_built set_edge_pairs_add_dependencies edge_pairs_add_components)
  have "length ?es = card (set ?es)"
    using d by (simp add: distinct_card)
  also have "\<dots> = length (remdups (resolved_pairs (add_components [] cs) ds))"
    by (simp add: s length_remdups_card_conv)
  finally show ?thesis using d s by simp
qed

text \<open>
  Witness for C4: four records, a duplicate, a self-loop and one to an unknown
  component among them, give the two edges \<open>A@1.0 \<rightarrow> B@2.0\<close> and
  \<open>A@1.0 \<rightarrow> A@1.0\<close>.
\<close>

theorem graph_edges_distinct_pairs_witness:
  "edge_pairs (fst (build_graph installed_registries ab_components
     [depends_on ''A@1.0'' ''B@2.0'', depends_on ''A@1.0'' ''A@1.0'',
      depends_on ''A@1.0'' ''B@2.0'', depends_on ''B@2.0'' ''C@3.0''])) =
     [(''A@1.0'', ''B@2.0''), (''A@1.0'', ''A@1.0'')] \<and>
   length (edge_pairs (fst (build_graph installed_registries ab_components
     [depends_on ''A@1.0'' ''B@2.0'', depends_on ''A@1.0'' ''A@1.0'',
      depends_on ''A@1.0'' ''B@2.0'', depends_on ''B@2.0'' ''C@3.0'']))) = 2"
  using graph_edges_distinct_pairs[of installed_registries ab_components
     "[depends_on ''A@1.0'' ''B@2.0'', depends_on ''A@1.0'' ''A@1.0'',
       depends_on ''A@1.0'' ''B@2.0'', depends_on ''B@2.0'' ''C@3.0'']"]
  by (simp add: fixture_defs input_defs builder_defs enrich_defs edge_pairs_def edges_def Let_def)

text \<open>
  Claim C5 (a missing name or version becomes the empty string in the node
  identifier), evaluated on three CycloneDX components: one without a name, one without
  a version, one with both null. The extractor stores the keys \<^verbatim>\<open>name\<close> and
  \<^verbatim>\<open>version\<close> with the value None, so the default \<^verbatim>\<open>''\<close> of the builder's
  \<^verbatim>\<open>component.get('name', '')\<close> is never taken and the f-string formats None: the
  node identifiers are \<open>None@1.0\<close>, \<open>A@None\<close> and \<open>None@None\<close>, where the claim
  has \<open>@1.0\<close>, \<open>A@\<close> and \<open>@\<close>. The nodes are created and nothing is raised.
\<close>

theorem missing_name_node_id:
  "node_ids (fst (build_dependency_graph installed_registries
      (CycloneDX [cdx Absent (Val ''1.0'') Absent, cdx (Val ''A'') Absent Absent,
                  cdx Null Null Absent] []))) =
     [''None@1.0'', ''A@None'', ''None@None'']"
  by (simp add: input_defs builder_defs enrich_defs Let_def)




subsection \<open>The risk scorer\<close>

text \<open>
  Claim C10. The trust level follows a fixed order of precedence: a signed package is
  VERIFIED whatever its maintainer reputation and incidents; otherwise a reputation above
  0.8 gives TRUSTED and one below 0.3 gives SUSPICIOUS, whatever the incidents;
  otherwise more than three security incidents give UNTRUSTED; every other node is
  NEUTRAL.
\<close>

theorem trust_level_precedence:
  "(trust_signed nd \<longrightarrow> calculate_trust_level nd = VERIFIED) \<and>
   (\<not> trust_signed nd \<and> trust_reputation nd > 0.8 \<longrightarrow> calculate_trust_level nd = TRUSTED) \<and>
   (\<not> trust_signed nd \<and> trust_reputation nd < 0.3 \<longrightarrow> calculate_trust_level nd = SUSPICIOUS) \<and>
   (\<not> trust_signed nd \<and> 0.3 \<le> trust_reputation nd \<and> trust_reputation nd \<le> 0.8 \<and>
      trust_incidents nd > 3 \<longrightarrow> calculate_trust_level nd = UNTRUSTED) \<and>
   (\<not> trust_signed nd \<and> 0.3 \<le> trust_reputation nd \<and> trust_reputation nd \<le> 0.8 \<and>
      trust_incidents nd \<le> 3 \<longrightarrow> calculate_trust_level nd = NEUTRAL)"
  by (auto simp: calculate_trust_level_def trust_signed_def trust_reputation_def
      trust_incidents_def empty_trust_info_def Let_def split: option.splits)

text \<open>
  Witness for C10: one node for each of the five branches, the first three with
  nine incidents.
\<close>

theorem trust_level_precedence_witness:
  "trust_signed (trust_node True 0.1 9) \<and>
   calculate_trust_level (trust_node True 0.1 9) = VERIFIED \<and>
   \<not> trust_signed (trust_node False 0.9 9) \<and> trust_reputation (trust_node False 0.9 9) > 0.8 \<and>
   calculate_trust_level (trust_node False 0.9 9) = TRUSTED \<and>
   \<not> trust_signed (trust_node False 0.1 9) \<and> trust_reputation (trust_node False 0.1 9) < 0.3 \<and>
   calculate_trust_level (trust_node False 0.1 9) = SUSPICIOUS \<and>
   trust_incidents (trust_node False 0.5 4) > 3 \<and>
   calculate_trust_level (trust_node False 0.5 4) = UNTRUSTED \<and>
   trust_incidents (trust_node False 0.5 3) \<le> 3 \<and>
   calculate_trust_level (trust_node False 0.5 3) = NEUTRAL"
  using trust_level_precedence[of "trust_node True 0.1 9"]
    trust_level_precedence[of "trust_node False 0.9 9"]
    trust_level_precedence[of "trust_node False 0.1 9"]
    trust_level_precedence[of "trust_node False 0.5 4"]
    trust_level_precedence[of "trust_node False 0.5 3"]
  by (simp add: trust_signed_def trust_reputation_def trust_incidents_def trust_node_def bare_node_def)

lemma guarded_penalty:
  "(if xs \<noteq> [] then p + real (length xs) * w else p) = p + real (length xs) * w"
  by simp

text \<open>
  Claim C2. For a non-empty node list the aggregate score is
  \<open>clamp (base_score - total_penalties) 0 10\<close>, with the base score the mean of
  \<open>10 - risk_score\<close> and the penalties the sum of 0.5 per circular dependency, 0.3 per
  single point of failure, 0.2 per orphaned dependency, 0.4 per node with a risk score
  above 7 and 0.6 per untrusted node, clamped once at the end.
\<close>

theorem supply_chain_score_formula:
  "nodes \<noteq> [] \<Longrightarrow>
   calculate_supply_chain_score nodes edge_list results = spec_supply_chain_score nodes results"
  unfolding calculate_supply_chain_score_def spec_supply_chain_score_def clamp_def
      spec_base_score_def spec_total_penalties_def Let_def guarded_penalty
  by (simp add: mult.commute)

text \<open>
  Witness for C2: two nodes (risk 8 and untrusted, risk 1 and neutral), one cycle and
  one orphan: base score 5.5, penalties 1.7, score 3.8.
\<close>

theorem supply_chain_score_formula_witness:
  "[sample_node 8 UNTRUSTED, sample_node 1 NEUTRAL] \<noteq> [] \<and>
   calculate_supply_chain_score [sample_node 8 UNTRUSTED, sample_node 1 NEUTRAL] []
     (sample_results [[''a'', ''b'']] [] [''c'']) = 3.8"
  using supply_chain_score_formula[of "[sample_node 8 UNTRUSTED, sample_node 1 NEUTRAL]" "[]"
      "sample_results [[''a'', ''b'']] [] [''c'']"]
  by (simp add: spec_supply_chain_score_def spec_base_score_def spec_total_penalties_def
      clamp_def sample_node_def sample_results_def)

lemma guarded_add:
  "(if c then (r::real) + a else if c' then r + b else r) = r + (if c then a else if c' then b else 0)"
  by simp

lemma node_risk_score_sum:
  "calculate_node_risk_score x nd g node_id =
     min (real_of_int (critical_vulns_of nd) * 2.0 +
          real_of_int (vuln_count_of nd) * 0.5 +
          spec_age_penalty 2000 (age_days_of nd) +
          spec_popularity_penalty (downloads_of nd) +
          spec_maintainer_penalty (maintainer_count_of nd) +
          spec_depth_penalty (depth_of x g node_id)) 10"
  unfolding calculate_node_risk_score_def Let_def guarded_add
    spec_age_penalty_def spec_popularity_penalty_def spec_maintainer_penalty_def
    spec_depth_penalty_def
  by (cases "depth_of x g node_id") simp_all

lemma penalties_nonneg:
  "0 \<le> spec_age_penalty t a" "0 \<le> spec_popularity_penalty d"
  "0 \<le> spec_maintainer_penalty k" "0 \<le> spec_depth_penalty z"
  by (simp_all add: spec_age_penalty_def spec_popularity_penalty_def
      spec_maintainer_penalty_def spec_depth_penalty_def split: option.splits)

text \<open>
  Claim C3 (the per-node risk score, with an age penalty of 0.5 for a package older
  than five years), evaluated on a package of 1900 days, with 50000 downloads and two
  maintainers, on the only node of a graph. The source adds the penalty under
  \<^verbatim>\<open>age_days > 2000\<close>, a line it comments \<^verbatim>\<open># > 5 years\<close>: the package is older than
  five years and gets no age penalty, so its risk score is 0 where the claim has
  0.5.
\<close>

theorem old_package_age_penalty_missed:
  "calculate_node_risk_score sample_externals (aged_node 1900)
      (single_node_graph (aged_node 1900)) ''pkg@1.0'' = 0 \<and>
   spec_node_risk_score five_years sample_externals (aged_node 1900)
      (single_node_graph (aged_node 1900)) ''pkg@1.0'' = 0.5"
  by (simp add: node_risk_score_sum spec_node_risk_score_def clamp_def five_years_def
      spec_age_penalty_def spec_popularity_penalty_def spec_maintainer_penalty_def
      spec_depth_penalty_def score_defs)

text \<open>
  What the code computes, for vulnerability counts that are not negative: the sum of
  the claim with the age penalty at 2000 days, capped at 10. A node with two critical
  vulnerabilities has a risk score of at least 4.0, as the claim says.
\<close>

lemma node_risk_score_formula:
  "(0 \<le> vuln_count_of nd \<and> 0 \<le> critical_vulns_of nd \<longrightarrow>
      calculate_node_risk_score x nd g node_id = spec_node_risk_score 2000 x nd g node_id) \<and>
   (critical_vulns_of nd = 2 \<and> 0 \<le> vuln_count_of nd \<longrightarrow>
      4 \<le> calculate_node_risk_score x nd g node_id)"
proof (intro conjI impI)
  let ?p = "spec_age_penalty 2000 (age_days_of nd) + spec_popularity_penalty (downloads_of nd) +
            spec_maintainer_penalty (maintainer_count_of nd) +
            spec_depth_penalty (depth_of x g node_id)"
  have p: "0 \<le> ?p"
    by (intro add_nonneg_nonneg penalties_nonneg)
  {
    assume h: "0 \<le> vuln_count_of nd \<and> 0 \<le> critical_vulns_of nd"
    then have "0 \<le> real_of_int (critical_vulns_of nd) * 2.0 + real_of_int (vuln_count_of nd) * 0.5 + ?p"
      using p by simp
    then show "calculate_node_risk_score x nd g node_id = spec_node_risk_score 2000 x nd g node_id"
      unfolding node_risk_score_sum spec_node_risk_score_def clamp_def
      by (simp add: add.assoc min.commute)
  }
  {
    assume h: "critical_vulns_of nd = 2 \<and> 0 \<le> vuln_count_of nd"
    then have "4 \<le> real_of_int (critical_vulns_of nd) * 2.0 + real_of_int (vuln_count_of nd) * 0.5 + ?p"
      using p by simp
    then show "4 \<le> calculate_node_risk_score x nd g node_id"
      unfolding node_risk_score_sum by (simp add: add.assoc)
  }
qed

lemma node_risk_score_formula_example:
  "calculate_node_risk_score sample_externals (vulnerable_node 0 2)
      (single_node_graph (vulnerable_node 0 2)) ''pkg@1.0'' = 6"
  using node_risk_score_formula[of "vulnerable_node 0 2" sample_externals
      "single_node_graph (vulnerable_node 0 2)" "''pkg@1.0''"]
  by (simp add: spec_node_risk_score_def clamp_def
      spec_age_penalty_def spec_popularity_penalty_def spec_maintainer_penalty_def
      spec_depth_penalty_def score_defs)








subsection \<open>The analysis as a whole\<close>

text \<open>
  Claim C1 (the analysis returns a complete result for every well-formed SBOM),
  evaluated on the scenario of the specification: a CycloneDX document with the
  components \<open>A@1.0\<close>, \<open>B@2.0\<close> and \<open>C@3.0\<close> and the dependencies
  \<open>A@1.0 \<rightarrow> B@2.0\<close> and \<open>B@2.0 \<rightarrow> C@3.0\<close>. An edge carries the type
  \<^verbatim>\<open>depends_on\<close> that \<^verbatim>\<open>_extract_dependencies\<close> writes, which is no value of
  \<^verbatim>\<open>DependencyType\<close>: the edge analysis raises ValueError and the analysis returns
  nothing, whatever the helper methods compute.
\<close>

theorem analysis_raises_on_dependency_edge:
  "analyze_supply_chain x installed_registries analysis_id timestamp db
     (CycloneDX [cdx (Val ''A'') (Val ''1.0'') Absent, cdx (Val ''B'') (Val ''2.0'') Absent,
                 cdx (Val ''C'') (Val ''3.0'') Absent]
        [\<lparr>cd_ref = Val ''A@1.0'', cd_dependsOn = [Some ''B@2.0'']\<rparr>,
         \<lparr>cd_ref = Val ''B@2.0'', cd_dependsOn = [Some ''C@3.0'']\<rparr>])
   = Inl (ValueError (CHR 0x27 # ''depends_on'' @ CHR 0x27 # '' is not a valid DependencyType''))"
  by (simp add: analyze_supply_chain_def analyze_edges_def DependencyType_of_def case_prod_beta
      input_defs builder_defs enrich_defs edges_def Let_def)










text \<open>
  The part of C1 on the graph without nodes, for the class with its helper methods
  supplied: the run returns, with no nodes, no edges and the score 0; the other metrics
  are what the helper methods return on the empty graph. (As the class stands, the
  first of these calls is an \<^verbatim>\<open>AttributeError\<close>.)
\<close>

lemma empty_graph_analysis:
  "case analyze_supply_chain x regs analysis_id timestamp db (CycloneDX [] []) of
     Inl err \<Rightarrow> False
   | Inr (a, db') \<Rightarrow>
       a_total_nodes a = 0 \<and> a_total_edges a = 0 \<and> a_supply_chain_score a = 0 \<and>
       a_nodes a = [] \<and> a_edges a = [] \<and>
       a_max_depth a = x_calculate_max_depth x [] \<and>
       a_orphaned_dependencies a = x_find_orphaned_dependencies x [] \<and>
       a_circular_dependencies a = x_find_circular_dependencies x []"
  by (simp add: analyze_supply_chain_def build_dependency_graph_def case_prod_beta
      build_graph_fst enrich_graph_fst analyze_nodes_def analyze_edges_def edges_def
      perform_graph_analysis_def calculate_supply_chain_score_def
      generate_recommendations_def named_recommendation_def Let_def)


text \<open>
  What a run yields does not depend on the identifier, the clock reading or the
  database given to it: where one run returns, so does the other, with the same
  analysis but for these two fields.
\<close>

lemma outcome_independent_of_run:
  "outcome (analyze_supply_chain x regs id1 ts1 db1 sbom_data) =
   outcome (analyze_supply_chain x regs id2 ts2 db2 sbom_data)"
  by (simp add: analyze_supply_chain_def outcome_def Let_def case_prod_beta split: sum.splits)

end
